theory Spec2Isabelle
  imports
    Complex_Main
    "HOL-Library.Multiset"
    "HOL-Library.Option_ord"
    "HOL-Library.Product_Lexorder"
begin

section \<open>Credit portfolio dashboard: metrics, banding, strategy simulation, high-risk filter\<close>

text \<open>
  A shallow embedding of the computations of \<^verbatim>\<open>app/dashboard.py\<close>:
  \<^verbatim>\<open>calculate_portfolio_metrics\<close>, the score banding of
  \<^verbatim>\<open>create_risk_analysis_charts\<close>, the policy simulation of
  \<^verbatim>\<open>create_strategy_simulation\<close> and the high-risk filter of \<^verbatim>\<open>main\<close>.

  Modelling decisions.
  \<^item> A pandas DataFrame is a record of its column index and its rows. The seven mandatory
    columns are taken to be in the index and to hold numbers or strings in every row; the
    optional columns hold \<open>None\<close> where the cell is missing (NaN after the left merge of
    \<^verbatim>\<open>load_portfolio_data\<close>).
    A field of an optional column that the index does not have is read by no function.
  \<^item> The monetary columns \<^verbatim>\<open>balance\<close> and \<^verbatim>\<open>credit_limit\<close> are integer columns
    (int64): their sums wrap around at \<open>2^63\<close>. The other numbers are exact rationals:
    rounding of binary floating point is not modelled. The special values of float64 that
    the code can produce (NaN from the mean of an empty series, NaN and the infinities
    from a division by zero) are kept as constructors.
  \<^item> \<^verbatim>\<open>calculate_portfolio_metrics\<close> is memoised by \<^verbatim>\<open>st.cache_data\<close>: the cache is
    part of the state, and a call returns what the cache holds under the key of its
    argument.
  \<^item> The widgets of streamlit are inputs: the sliders and the multiselect are the fields
    of \<open>policy\<close>, the number inputs are arguments. Rendering (\<^verbatim>\<open>st.metric\<close>,
    plotly) is left out.
\<close>

subsection \<open>Numbers\<close>

datatype float64 = Fin rat | NaN | PosInf | NegInf

text \<open>Multiplication and subtraction of float64 values, with the IEEE rules for the special values.\<close>

fun fmul :: "float64 \<Rightarrow> float64 \<Rightarrow> float64" where
  "fmul (Fin a) (Fin b) = Fin (a * b)"
| "fmul NaN _ = NaN"
| "fmul _ NaN = NaN"
| "fmul PosInf (Fin b) = (if b = 0 then NaN else if 0 < b then PosInf else NegInf)"
| "fmul NegInf (Fin b) = (if b = 0 then NaN else if 0 < b then NegInf else PosInf)"
| "fmul (Fin a) PosInf = (if a = 0 then NaN else if 0 < a then PosInf else NegInf)"
| "fmul (Fin a) NegInf = (if a = 0 then NaN else if 0 < a then NegInf else PosInf)"
| "fmul PosInf PosInf = PosInf"
| "fmul PosInf NegInf = NegInf"
| "fmul NegInf PosInf = NegInf"
| "fmul NegInf NegInf = PosInf"

fun fsub :: "float64 \<Rightarrow> float64 \<Rightarrow> float64" where
  "fsub (Fin a) (Fin b) = Fin (a - b)"
| "fsub NaN _ = NaN"
| "fsub _ NaN = NaN"
| "fsub PosInf PosInf = NaN"
| "fsub NegInf NegInf = NaN"
| "fsub PosInf _ = PosInf"
| "fsub NegInf _ = NegInf"
| "fsub (Fin a) PosInf = NegInf"
| "fsub (Fin a) NegInf = PosInf"

text \<open>
  Division of two finite numpy scalars: a zero divisor gives NaN or an infinity (and a
  RuntimeWarning, which the module filters), never an exception.
\<close>

definition true_divide :: "rat \<Rightarrow> rat \<Rightarrow> float64" where
  "true_divide a b =
     (if b \<noteq> 0 then Fin (a / b)
      else if a = 0 then NaN
      else if 0 < a then PosInf
      else NegInf)"

text \<open>
  An int64 is an integer from \<open>-2^63\<close> up to \<open>2^63 - 1\<close>; \<open>wrap64\<close> is the value numpy
  keeps of an exact result. Sums and differences of int64 values wrap without an exception.
\<close>

definition wrap64 :: "int \<Rightarrow> int" where
  "wrap64 x = (x + 9223372036854775808) mod 18446744073709551616 - 9223372036854775808"

text \<open>\<^verbatim>\<open>Series.sum()\<close> of an int64 column: 0 on the empty series.\<close>

definition sum_int64 :: "int list \<Rightarrow> int" where
  "sum_int64 xs = wrap64 (sum_list xs)"

text \<open>\<^verbatim>\<open>Series.mean()\<close>: NaN on the empty series.\<close>

definition mean :: "rat list \<Rightarrow> float64" where
  "mean xs = (if xs = [] then NaN else Fin (sum_list xs / of_nat (length xs)))"

text \<open>A boolean series read as numbers, as \<^verbatim>\<open>mean\<close> and \<^verbatim>\<open>sum\<close> do.\<close>

definition bools :: "bool list \<Rightarrow> rat list" where
  "bools bs = map (\<lambda>b. if b then 1 else 0) bs"

subsection \<open>Tables\<close>

record customer =
  customer_id :: nat
  acceptance_decision :: string
  application_score :: rat
  credit_limit :: int
  balance :: int
  utilization_rate :: rat
  delinquency_status :: int
  income_band :: "string option"
  region :: "string option"
  risk_segment :: "string option"
  risk_score :: "rat option"

record dataframe =
  columns :: "string list"
  rows :: "customer list"

text \<open>\<^verbatim>\<open>df.empty\<close>, for a frame that has columns.\<close>

definition empty :: "dataframe \<Rightarrow> bool" where
  "empty df \<longleftrightarrow> rows df = []"

text \<open>\<^verbatim>\<open>df[df['acceptance_decision'] == 'Approved']\<close>: a new frame, same columns.\<close>

definition approved_df :: "dataframe \<Rightarrow> dataframe" where
  "approved_df df = df\<lparr>rows := filter (\<lambda>r. acceptance_decision r = ''Approved'') (rows df)\<rparr>"

subsection \<open>The metrics aggregator\<close>

record metrics =
  total_customers :: nat
  approved_customers :: nat
  approval_rate :: rat
  portfolio_balance :: int
  total_limits :: int
  avg_utilization :: float64
  avg_credit_score :: float64
  delinquency_rate :: float64
  delinquent_customers :: nat
  high_risk_customers :: nat

text \<open>
  The body of \<^verbatim>\<open>calculate_portfolio_metrics\<close>, under its decorator. It returns a dict;
  \<open>None\<close> is the empty dict \<^verbatim>\<open>{}\<close> of the first branch, \<open>Some m\<close> the dict with the
  ten keys.
\<close>

definition calculate_portfolio_metrics_body :: "dataframe \<Rightarrow> metrics option" where
  "calculate_portfolio_metrics_body df =
     (if empty df then None
      else
        let a = approved_df df in
        Some \<lparr>
          total_customers = length (rows df),
          approved_customers = length (rows a),
          approval_rate =
            (if length (rows df) > 0
             then of_nat (length (rows a)) / of_nat (length (rows df)) * 100 else 0),
          portfolio_balance = sum_int64 (map balance (rows a)),
          total_limits = sum_int64 (map credit_limit (rows a)),
          avg_utilization = mean (map utilization_rate (rows a)),
          avg_credit_score = mean (map application_score (rows a)),
          delinquency_rate =
            fmul (mean (bools (map (\<lambda>r. delinquency_status r > 0) (rows a)))) (Fin 100),
          delinquent_customers =
            length (filter (\<lambda>b. b) (map (\<lambda>r. delinquency_status r > 0) (rows a))),
          high_risk_customers =
            (if ''risk_segment'' \<in> set (columns a)
             then length (filter (\<lambda>r. risk_segment r = Some ''High Risk'') (rows a))
             else 0)
        \<rparr>)"

subsection \<open>The cache of the metrics\<close>

text \<open>
  \<^verbatim>\<open>@st.cache_data\<close> keeps the results of \<^verbatim>\<open>calculate_portfolio_metrics\<close> for the life
  of the process, under a key that streamlit computes from the argument. The key of a
  frame is made of its shape, of its column index and of its rows with their positions;
  of a frame of 50,000 rows or more only the rows of a sample of 10,000 positions,
  \<^verbatim>\<open>df.sample(n=10000, random_state=0)\<close>, go into the key. The hash functions are taken
  to be free of collisions: the key is the hashed data.

  The positions of the sample depend on the number of rows alone. They are drawn by
  numpy and are a parameter here: \<open>smp n\<close> is the list of the positions drawn for a frame
  of \<open>n\<close> rows, and \<open>valid_sample\<close> says that it is a draw of 10,000 positions without
  replacement.
\<close>

definition valid_sample :: "(nat \<Rightarrow> nat list) \<Rightarrow> nat \<Rightarrow> bool" where
  "valid_sample smp n \<longleftrightarrow>
     distinct (smp n) \<and> list_all (\<lambda>i. i < n) (smp n) \<and> length (smp n) = 10000"

record frame_key =
  key_shape :: "nat \<times> nat"
  key_columns :: "string list"
  key_rows :: "(nat \<times> customer) list"

definition frame_key :: "(nat \<Rightarrow> nat list) \<Rightarrow> dataframe \<Rightarrow> frame_key" where
  "frame_key smp df =
     (let n = length (rows df) in
      \<lparr>key_shape = (n, length (columns df)),
       key_columns = columns df,
       key_rows = map (\<lambda>i. (i, rows df ! i))
                    (if n \<ge> 50000 then filter (\<lambda>i. i < n) (smp n) else [0..<n])\<rparr>)"

text \<open>
  The cache holds, under the key of every frame on which the body ran, what the body
  returned on that frame. It is represented by the list of these frames, oldest first.
  A call looks the key of its argument up: on a hit it returns the result kept for the
  frame that made the entry, on a miss it runs the body and makes an entry.
\<close>

type_synonym cache = "dataframe list"

definition calculate_portfolio_metrics ::
    "(nat \<Rightarrow> nat list) \<Rightarrow> dataframe \<Rightarrow> cache \<Rightarrow> metrics option \<times> cache" where
  "calculate_portfolio_metrics smp df c =
     (case find (\<lambda>f. frame_key smp f = frame_key smp df) c of
        Some f \<Rightarrow> (calculate_portfolio_metrics_body f, c)
      | None \<Rightarrow> (calculate_portfolio_metrics_body df, c @ [df]))"

subsection \<open>Score bands\<close>

text \<open>
  \<^verbatim>\<open>pd.cut(scores, bins=[0, 500, 600, 650, 700, 750, 900], labels=[...])\<close>. The call
  leaves \<^verbatim>\<open>right\<close> at its default \<^verbatim>\<open>True\<close>: every interval is open on the left
  and closed on the right, and a score outside \<open>(0, 900]\<close> has no band (NaN).
\<close>

definition bins :: "rat list" where
  "bins = [0, 500, 600, 650, 700, 750, 900]"

definition labels :: "string list" where
  "labels = [''<500'', ''500-599'', ''600-649'', ''650-699'', ''700-749'', ''750+'']"

fun cut :: "rat \<Rightarrow> rat list \<Rightarrow> string list \<Rightarrow> string option" where
  "cut x (lo # hi # bs) (l # ls) = (if lo < x \<and> x \<le> hi then Some l else cut x (hi # bs) ls)"
| "cut x _ _ = None"

definition score_band :: "customer \<Rightarrow> string option" where
  "score_band r = cut (application_score r) bins labels"

text \<open>
  \<^verbatim>\<open>groupby('score_band', observed=True).agg(...)\<close> over the approved rows: one output
  row per band that has at least one customer, in the order of the labels, with the
  number of customers and the delinquency rate of the band. Rows without a band are
  dropped by the grouping.
\<close>

definition risk_by_score :: "dataframe \<Rightarrow> (string \<times> nat \<times> float64) list" where
  "risk_by_score df =
     (let a = approved_df df in
      concat (map (\<lambda>l.
        let g = filter (\<lambda>r. score_band r = Some l) (rows a) in
        if g = [] then []
        else [(l, length g,
               fmul (mean (bools (map (\<lambda>r. delinquency_status r > 0) g))) (Fin 100))])
        labels))"

subsection \<open>The strategy simulator\<close>

record policy =
  min_score :: int
  limit_multiplier :: rat
  income_targets :: "string list"

datatype error = KeyError string

text \<open>
  Frames are objects: a name is a reference, \<^verbatim>\<open>df.copy()\<close> makes a new object and
  \<^verbatim>\<open>.loc[...] = ...\<close> writes into the object it is called on. The store is the list of
  the frames that exist, a reference is an index into it.
\<close>

type_synonym ref = nat
type_synonym store = "dataframe list"

definition df_copy :: "ref \<Rightarrow> store \<Rightarrow> ref \<times> store" where
  "df_copy a s = (length s, s @ [s ! a])"

text \<open>\<^verbatim>\<open>Series.isin(values)\<close> on a cell: a missing cell is in no list of strings.\<close>

definition isin :: "string option \<Rightarrow> string list \<Rightarrow> bool" where
  "isin c vs = (case c of None \<Rightarrow> False | Some v \<Rightarrow> v \<in> set vs)"

text \<open>
  \<^verbatim>\<open>(strategy_df['application_score'] >= min_score) & (strategy_df['income_band'].isin(income_targets))\<close>:
  the column lookup raises when the frame has no \<^verbatim>\<open>income_band\<close> column.
\<close>

definition eligible_mask :: "policy \<Rightarrow> dataframe \<Rightarrow> error + bool list" where
  "eligible_mask p df =
     (if ''income_band'' \<notin> set (columns df) then Inl (KeyError ''income_band'')
      else Inr (map (\<lambda>r. application_score r \<ge> of_int (min_score p)
                          \<and> isin (income_band r) (income_targets p)) (rows df)))"

text \<open>\<^verbatim>\<open>frame.loc[mask, 'acceptance_decision'] = v\<close>, in place.\<close>

definition loc_assign_decision :: "ref \<Rightarrow> bool list \<Rightarrow> string \<Rightarrow> store \<Rightarrow> store" where
  "loc_assign_decision a msk v s =
     s[a := (s ! a)\<lparr>rows :=
        map (\<lambda>(r, m). if m then r\<lparr>acceptance_decision := v\<rparr> else r) (zip (rows (s ! a)) msk)\<rparr>]"

record sim_output =
  baseline_metrics :: metrics
  strategy_metrics :: metrics
  approval_change :: rat
  balance_change :: float64
  delinq_change :: float64
  score_change :: float64
  comparison_current :: "float64 list"
  comparison_strategy :: "float64 list"

text \<open>
  The comparison of the two dicts. A subscript on the empty dict raises KeyError; the
  first key read is \<^verbatim>\<open>approval_rate\<close>, of the strategy metrics. The two balances are
  int64 scalars: their difference wraps, and the division is numpy's.
\<close>

definition comparison :: "metrics option \<Rightarrow> metrics option \<Rightarrow> error + sim_output option" where
  "comparison baseline strategy =
     (case strategy of
        None \<Rightarrow> Inl (KeyError ''approval_rate'')
      | Some sm \<Rightarrow>
          (case baseline of
             None \<Rightarrow> Inl (KeyError ''approval_rate'')
           | Some bm \<Rightarrow> Inr (Some \<lparr>
               baseline_metrics = bm,
               strategy_metrics = sm,
               approval_change = approval_rate sm - approval_rate bm,
               balance_change =
                 fmul (true_divide (of_int (wrap64 (portfolio_balance sm - portfolio_balance bm)))
                                   (of_int (portfolio_balance bm))) (Fin 100),
               delinq_change = fsub (delinquency_rate sm) (delinquency_rate bm),
               score_change = fsub (avg_credit_score sm) (avg_credit_score bm),
               comparison_current =
                 [Fin (of_nat (approved_customers bm)),
                  Fin (of_int (portfolio_balance bm) / 1000000),
                  delinquency_rate bm],
               comparison_strategy =
                 [Fin (of_nat (approved_customers sm)),
                  Fin (of_int (portfolio_balance sm) / 1000000),
                  delinquency_rate sm]
             \<rparr>)))"

text \<open>
  The body of \<^verbatim>\<open>create_strategy_simulation\<close> once the button is pressed. \<open>df\<close> is the
  frame that \<^verbatim>\<open>load_portfolio_data()\<close> returned; on an empty frame nothing is computed
  (\<open>Inr None\<close>). The result comes with the store and the cache the call leaves behind.
\<close>

definition create_strategy_simulation ::
    "(nat \<Rightarrow> nat list) \<Rightarrow> policy \<Rightarrow> ref \<Rightarrow> store \<Rightarrow> cache
       \<Rightarrow> (error + sim_output option) \<times> store \<times> cache" where
  "create_strategy_simulation smp p df s c =
     (if empty (s ! df) then (Inr None, s, c)
      else
        let (baseline, c1) = calculate_portfolio_metrics smp (s ! df) c;
            (strategy_df, s1) = df_copy df s
        in case eligible_mask p (s1 ! strategy_df) of
             Inl e \<Rightarrow> (Inl e, s1, c1)
           | Inr msk \<Rightarrow>
               let s2 = loc_assign_decision strategy_df (map Not msk) ''Declined'' s1;
                   (strategy, c2) = calculate_portfolio_metrics smp (s2 ! strategy_df) c1
               in (comparison baseline strategy, s2, c2))"

text \<open>
  The simulator as a function of a table, a policy and the cache of the process: the run
  from the store that holds the table alone, with its result and the cache it leaves.
  \<open>working_copy\<close> is the frame \<^verbatim>\<open>strategy_df\<close> as the run leaves it, when the run made
  one.
\<close>

definition simulate ::
    "(nat \<Rightarrow> nat list) \<Rightarrow> dataframe \<Rightarrow> policy \<Rightarrow> cache
       \<Rightarrow> (error + sim_output option) \<times> cache" where
  "simulate smp table p c =
     (case create_strategy_simulation smp p 0 [table] c of (r, s, c') \<Rightarrow> (r, c'))"

definition working_copy ::
    "(nat \<Rightarrow> nat list) \<Rightarrow> dataframe \<Rightarrow> policy \<Rightarrow> cache \<Rightarrow> dataframe option" where
  "working_copy smp table p c =
     (case fst (snd (create_strategy_simulation smp p 0 [table] c)) of
        [_, w] \<Rightarrow> Some w
      | _ \<Rightarrow> None)"

subsection \<open>The high-risk filter\<close>

text \<open>
  \<^verbatim>\<open>sort_values(..., ascending=False)\<close>: the rows in descending order of the key,
  rows with a missing key last. A missing key is \<open>None\<close>, the least key. Rows with equal
  keys stay in the order of the input, as in the sort of pandas on several keys; its sort
  on one key is numpy's quicksort, which promises no order among equal keys.
\<close>

definition sort_values_desc :: "('a \<Rightarrow> 'k::linorder) \<Rightarrow> 'a list \<Rightarrow> 'a list" where
  "sort_values_desc k xs = rev (sort_key k (rev xs))"

text \<open>
  The filter of the page "High-Risk Customers" of \<^verbatim>\<open>main\<close>; the three thresholds are
  the integer number inputs.
\<close>

definition high_risk_df :: "dataframe \<Rightarrow> int \<Rightarrow> int \<Rightarrow> int \<Rightarrow> dataframe" where
  "high_risk_df df min_balance max_score min_utilization =
     (let a = approved_df df;
          h = a\<lparr>rows := filter (\<lambda>r. balance r \<ge> min_balance
                                   \<and> application_score r \<le> of_int max_score
                                   \<and> utilization_rate r \<ge> of_int min_utilization) (rows a)\<rparr>
      in if ''risk_score'' \<in> set (columns h)
         then h\<lparr>rows := sort_values_desc risk_score (rows h)\<rparr>
         else h\<lparr>rows := sort_values_desc (\<lambda>r. (delinquency_status r, utilization_rate r)) (rows h)\<rparr>)"

subsection \<open>Derived descriptions\<close>

text \<open>
  The frame that the masked assignment leaves in \<^verbatim>\<open>strategy_df\<close>, written as a map
  over the rows of the input. Lemma \<open>create_strategy_simulation_unfold\<close> proves that
  the run computes it and passes it to \<^verbatim>\<open>calculate_portfolio_metrics\<close>.
\<close>

definition strategy_table :: "policy \<Rightarrow> dataframe \<Rightarrow> dataframe" where
  "strategy_table p df =
     df\<lparr>rows := map (\<lambda>r. if application_score r \<ge> of_int (min_score p)
                               \<and> isin (income_band r) (income_targets p)
                            then r else r\<lparr>acceptance_decision := ''Declined''\<rparr>) (rows df)\<rparr>"

text \<open>
  The eligibility rule in the words of the specification: a row is forced to Declined
  when its score is below the minimum, or when its income band is present and is not a
  target band.
\<close>

definition spec_forced :: "policy \<Rightarrow> customer \<Rightarrow> bool" where
  "spec_forced p r \<longleftrightarrow>
     application_score r < of_int (min_score p)
     \<or> (case income_band r of None \<Rightarrow> False | Some b \<Rightarrow> b \<notin> set (income_targets p))"

subsection \<open>Example tables\<close>

definition example_columns :: "string list" where
  "example_columns =
     [''customer_id'', ''acceptance_decision'', ''application_score'', ''credit_limit'',
      ''balance'', ''utilization_rate'', ''delinquency_status'', ''income_band'']"

definition example_row ::
    "nat \<Rightarrow> string \<Rightarrow> rat \<Rightarrow> int \<Rightarrow> rat \<Rightarrow> int \<Rightarrow> string option \<Rightarrow> customer" where
  "example_row i d sc bal util del band =
     \<lparr>customer_id = i, acceptance_decision = d, application_score = sc,
      credit_limit = 1000, balance = bal, utilization_rate = util,
      delinquency_status = del, income_band = band, region = None,
      risk_segment = None, risk_score = None\<rparr>"

definition all_bands :: policy where
  "all_bands = \<lparr>min_score = 500, limit_multiplier = 1,
                 income_targets = [''Low'', ''Medium'', ''High'']\<rparr>"

definition empty_table :: dataframe where
  "empty_table = \<lparr>columns = example_columns, rows = []\<rparr>"

definition declined_table :: dataframe where
  "declined_table =
     \<lparr>columns = example_columns,
      rows = [example_row 1 ''Declined'' 480 0 0 0 (Some ''Low'')]\<rparr>"

text \<open>Three approved customers, scores 450, 600, 700 and balances 100, 200, 300; the second is 30 days past due.\<close>

definition three_approved :: dataframe where
  "three_approved =
     \<lparr>columns = example_columns,
      rows = [example_row 1 ''Approved'' 450 100 10 0 (Some ''Low''),
              example_row 2 ''Approved'' 600 200 20 1 (Some ''Medium''),
              example_row 3 ''Approved'' 700 300 30 0 (Some ''High'')]\<rparr>"

text \<open>Four approved customers with the scores 499, 500, 649, 650.\<close>

definition boundary_scores :: dataframe where
  "boundary_scores =
     \<lparr>columns = example_columns,
      rows = [example_row 1 ''Approved'' 499 0 0 0 (Some ''Low''),
              example_row 2 ''Approved'' 500 0 0 0 (Some ''Low''),
              example_row 3 ''Approved'' 649 0 0 0 (Some ''Low''),
              example_row 4 ''Approved'' 650 0 0 0 (Some ''Low'')]\<rparr>"

text \<open>One approved customer with a good score whose income band is missing.\<close>

definition missing_band :: dataframe where
  "missing_band =
     \<lparr>columns = example_columns,
      rows = [example_row 1 ''Approved'' 700 250 25 0 None]\<rparr>"

text \<open>One approved customer who owes nothing.\<close>

definition zero_balance :: dataframe where
  "zero_balance =
     \<lparr>columns = example_columns,
      rows = [example_row 1 ''Approved'' 700 0 0 0 (Some ''Low'')]\<rparr>"

text \<open>
  Four approved customers, no \<^verbatim>\<open>risk_score\<close> column, delinquency statuses 1, 2, 1, 2
  and utilisations 60, 70, 90, 70.
\<close>

definition four_risky :: dataframe where
  "four_risky =
     \<lparr>columns = example_columns,
      rows = [example_row 1 ''Approved'' 600 2000 60 1 (Some ''Low''),
              example_row 2 ''Approved'' 610 2000 70 2 (Some ''Low''),
              example_row 3 ''Approved'' 620 2000 90 1 (Some ''Low''),
              example_row 4 ''Approved'' 630 2000 70 2 (Some ''Low'')]\<rparr>"

text \<open>
  A stand-in for the draw of numpy in the examples: the first 10,000 positions. The
  tables of fewer than 50,000 rows are not sampled.
\<close>

definition first_rows :: "nat \<Rightarrow> nat list" where
  "first_rows n = [0..<10000]"


text \<open>
  A table of \<open>n\<close> approved customers that is laid out along the sample \<open>smp n\<close>. The
  customer at the first sampled position has the score 450 and the one at the second
  sampled position the score 600; all others have the score 700. The customers at the
  sampled positions have a high income, the others a low income.
\<close>

definition sampled_table :: "(nat \<Rightarrow> nat list) \<Rightarrow> nat \<Rightarrow> dataframe" where
  "sampled_table smp n =
     \<lparr>columns = example_columns,
      rows = map (\<lambda>i. if i = smp n ! 0 then example_row i ''Approved'' 450 100 10 0 (Some ''High'')
                       else if i = smp n ! 1 then example_row i ''Approved'' 600 100 10 0 (Some ''High'')
                       else if i \<in> set (smp n) then example_row i ''Approved'' 700 100 10 0 (Some ''High'')
                       else example_row i ''Approved'' 700 100 10 0 (Some ''Low'')) [0..<n]\<rparr>"

definition high_income :: policy where
  "high_income = \<lparr>min_score = 500, limit_multiplier = 1, income_targets = [''High'']\<rparr>"

section \<open>Properties\<close>

subsection \<open>Series of booleans\<close>

lemma sum_list_bools: "sum_list (bools (map P xs)) = of_nat (length (filter P xs))"
  by (induction xs) (simp_all add: bools_def)

lemma rate_of_bools:
  "xs \<noteq> [] \<Longrightarrow>
     fmul (mean (bools (map P xs))) (Fin 100) =
       Fin (of_nat (length (filter P xs)) / of_nat (length xs) * 100)"
  by (simp add: mean_def sum_list_bools) (simp add: bools_def)

subsection \<open>Sums of int64\<close>

text \<open>
  \<open>wrap64\<close> changes nothing within the range of int64, and what it returns is in that
  range.
\<close>

lemma wrap64_id:
  "- 9223372036854775808 \<le> x \<Longrightarrow> x < 9223372036854775808 \<Longrightarrow> wrap64 x = x"
  by (simp add: wrap64_def)

lemma wrap64_range: "- 9223372036854775808 \<le> wrap64 x \<and> wrap64 x < 9223372036854775808"
proof -
  have "0 \<le> (x + 9223372036854775808) mod 18446744073709551616"
    "(x + 9223372036854775808) mod 18446744073709551616 < 18446744073709551616"
    by simp_all
  then show ?thesis unfolding wrap64_def by linarith
qed

lemma wrap64_wrap64 [simp]: "wrap64 (wrap64 x) = wrap64 x"
  using wrap64_range [of x] by (simp add: wrap64_id)

subsection \<open>Keys of the cache\<close>

text \<open>
  Frames with the same key have the same shape and the same columns. A frame of fewer
  than 50,000 rows shares its key with no other frame, so a call on it returns what the
  body computes on it, whatever the cache holds.
\<close>

lemma frame_key_shape:
  assumes "frame_key smp f = frame_key smp df"
  shows "length (rows f) = length (rows df)" "columns f = columns df"
  using assms by (simp_all add: frame_key_def Let_def)

lemma frame_key_small:
  assumes "length (rows df) < 50000" "frame_key smp f = frame_key smp df"
  shows "f = df"
proof -
  note sh = frame_key_shape [OF assms(2)]
  have "map (\<lambda>i. (i, rows f ! i)) [0..<length (rows df)] =
        map (\<lambda>i. (i, rows df ! i)) [0..<length (rows df)]"
    using assms by (simp add: frame_key_def Let_def sh)
  then have "rows f ! i = rows df ! i" if "i < length (rows df)" for i
    using that by simp
  then have "rows f = rows df"
    using sh(1) by (intro nth_equalityI) simp_all
  with sh(2) show ?thesis by simp
qed

lemma find_key:
  "find (\<lambda>f. frame_key smp f = k) c = Some f \<Longrightarrow> frame_key smp f = k"
  by (auto simp: find_Some_iff)

lemma calculate_portfolio_metrics_small:
  assumes "length (rows df) < 50000"
  shows "fst (calculate_portfolio_metrics smp df c) = calculate_portfolio_metrics_body df"
  using assms
  by (auto simp: calculate_portfolio_metrics_def split: option.splits
      dest!: find_key dest: frame_key_small)

text \<open>
  A second call on a frame returns what the first call returned and leaves the cache as
  it finds it, also after other entries were made.
\<close>

lemma find_append:
  "find P (xs @ ys) = (case find P xs of None \<Rightarrow> find P ys | Some x \<Rightarrow> Some x)"
  by (induction xs) simp_all

lemma calculate_again:
  "calculate_portfolio_metrics smp df (snd (calculate_portfolio_metrics smp df c) @ e) =
     (fst (calculate_portfolio_metrics smp df c), snd (calculate_portfolio_metrics smp df c) @ e)"
  by (simp add: calculate_portfolio_metrics_def find_append split: option.splits)

lemma calculate_extends:
  "\<exists>e. snd (calculate_portfolio_metrics smp df c) = c @ e"
  by (simp add: calculate_portfolio_metrics_def split: option.splits)

text \<open>
  Two frames of 50,000 rows or more, of the same shape and with the same columns, have
  the same key when they agree at the sampled positions.
\<close>

lemma frame_key_large:
  assumes "50000 \<le> length (rows a)" "length (rows b) = length (rows a)"
    "columns b = columns a" "list_all (\<lambda>i. i < length (rows a)) (smp (length (rows a)))"
  shows "frame_key smp a = frame_key smp b \<longleftrightarrow>
     (\<forall>i\<in>set (smp (length (rows a))). rows a ! i = rows b ! i)"
proof -
  have "filter (\<lambda>i. i < length (rows a)) (smp (length (rows a))) = smp (length (rows a))"
    using assms(4) by (simp add: list_all_iff)
  with assms(1,2,3) show ?thesis
    by (simp add: frame_key_def Let_def)
qed

subsection \<open>The metrics of an empty table\<close>

text \<open>
  C1, as stated, fails: on the empty table \<^verbatim>\<open>calculate_portfolio_metrics\<close> takes its
  first branch and returns the empty dict, which has no \<^verbatim>\<open>total_customers\<close>, no
  \<^verbatim>\<open>approval_rate\<close> and no \<^verbatim>\<open>delinquency_rate\<close>.
\<close>

theorem empty_table_metrics_counterexample:
  "fst (calculate_portfolio_metrics first_rows empty_table []) = None
   \<and> map_option total_customers (fst (calculate_portfolio_metrics first_rows empty_table []))
       \<noteq> Some 0
   \<and> map_option approval_rate (fst (calculate_portfolio_metrics first_rows empty_table []))
       \<noteq> Some 0
   \<and> map_option delinquency_rate (fst (calculate_portfolio_metrics first_rows empty_table []))
       \<noteq> Some (Fin 0)"
  by (simp add: calculate_portfolio_metrics_def calculate_portfolio_metrics_body_def empty_def
      empty_table_def)

text \<open>
  C1, amended: \<^verbatim>\<open>calculate_portfolio_metrics\<close> returns the empty dict, without
  raising, on the empty table and on no other table. This holds with every cache: the
  key of a frame holds its shape, so an entry made by an empty frame serves empty frames
  only.
\<close>

theorem calculate_portfolio_metrics_empty:
  "fst (calculate_portfolio_metrics smp df c) = None \<longleftrightarrow> rows df = []"
proof (cases "find (\<lambda>f. frame_key smp f = frame_key smp df) c")
  case None
  then show ?thesis
    by (simp add: calculate_portfolio_metrics_def calculate_portfolio_metrics_body_def
        empty_def Let_def)
next
  case (Some f)
  from find_key [OF Some] have "length (rows f) = length (rows df)"
    by (rule frame_key_shape)
  then have "rows f = [] \<longleftrightarrow> rows df = []" by (metis length_0_conv)
  with Some show ?thesis
    by (simp add: calculate_portfolio_metrics_def calculate_portfolio_metrics_body_def
        empty_def Let_def)
qed

theorem calculate_portfolio_metrics_empty_witness:
  "rows empty_table = []
   \<and> fst (calculate_portfolio_metrics first_rows empty_table []) = None
   \<and> rows declined_table \<noteq> []
   \<and> fst (calculate_portfolio_metrics first_rows declined_table [empty_table]) \<noteq> None"
  using calculate_portfolio_metrics_empty [of first_rows empty_table "[]"]
    calculate_portfolio_metrics_empty [of first_rows declined_table "[empty_table]"]
  by (simp add: empty_table_def declined_table_def)

subsection \<open>The delinquency rate\<close>

text \<open>
  C2, as stated, fails: a table of one declined customer is not empty and has no approved
  row, and its \<^verbatim>\<open>delinquency_rate\<close> is the mean of an empty series times 100, which
  is NaN and not 0.
\<close>

theorem no_approved_delinquency_rate_counterexample:
  "rows declined_table \<noteq> []
   \<and> rows (approved_df declined_table) = []
   \<and> map_option delinquency_rate (fst (calculate_portfolio_metrics first_rows declined_table []))
       = Some NaN
   \<and> map_option delinquency_rate (fst (calculate_portfolio_metrics first_rows declined_table []))
       \<noteq> Some (Fin 0)"
  by (simp add: calculate_portfolio_metrics_def calculate_portfolio_metrics_body_def empty_def
      declined_table_def approved_df_def example_row_def mean_def bools_def)

text \<open>
  C2, amended: every non-empty table of fewer than 50,000 rows gets its metrics, whatever
  the cache holds. When no row is approved, \<^verbatim>\<open>delinquency_rate\<close>,
  \<^verbatim>\<open>avg_utilization\<close> and \<^verbatim>\<open>avg_credit_score\<close> are all NaN; otherwise
  \<^verbatim>\<open>delinquency_rate\<close> is the number of approved rows with a positive delinquency
  status, divided by the number of approved rows, times 100.
\<close>

theorem delinquency_rate_formula:
  assumes "rows df \<noteq> []" "length (rows df) < 50000"
  shows "\<exists>m. fst (calculate_portfolio_metrics smp df c) = Some m
     \<and> approved_customers m = length (rows (approved_df df))
     \<and> (if approved_customers m = 0
        then delinquency_rate m = NaN \<and> avg_utilization m = NaN \<and> avg_credit_score m = NaN
        else delinquency_rate m =
               Fin (of_nat (length (filter (\<lambda>r. delinquency_status r > 0) (rows (approved_df df))))
                    / of_nat (approved_customers m) * 100))"
proof (cases "rows (approved_df df) = []")
  case True
  with assms show ?thesis
    by (simp add: calculate_portfolio_metrics_small calculate_portfolio_metrics_body_def
        empty_def Let_def mean_def bools_def)
next
  case False
  with assms show ?thesis
    by (simp add: calculate_portfolio_metrics_small calculate_portfolio_metrics_body_def
        empty_def Let_def rate_of_bools)
qed

theorem delinquency_rate_formula_witness:
  "rows declined_table \<noteq> [] \<and> length (rows declined_table) < 50000
   \<and> map_option approved_customers
        (fst (calculate_portfolio_metrics first_rows declined_table [three_approved])) = Some 0
   \<and> map_option delinquency_rate
        (fst (calculate_portfolio_metrics first_rows declined_table [three_approved])) = Some NaN
   \<and> rows three_approved \<noteq> [] \<and> length (rows three_approved) < 50000
   \<and> map_option approved_customers
        (fst (calculate_portfolio_metrics first_rows three_approved [])) = Some 3
   \<and> map_option delinquency_rate
        (fst (calculate_portfolio_metrics first_rows three_approved [])) = Some (Fin (100 / 3))"
proof -
  have d: "rows declined_table \<noteq> []" "length (rows declined_table) < 50000"
    by (simp_all add: declined_table_def)
  have t: "rows three_approved \<noteq> []" "length (rows three_approved) < 50000"
    by (simp_all add: three_approved_def)
  have ad: "rows (approved_df declined_table) = []"
    by (simp add: declined_table_def approved_df_def example_row_def)
  have at: "rows (approved_df three_approved) = rows three_approved"
    by (simp add: three_approved_def approved_df_def example_row_def)
  have ft: "length (filter (\<lambda>r. delinquency_status r > 0) (rows three_approved)) = 1"
    by (simp add: three_approved_def example_row_def)
  have lt: "length (rows three_approved) = 3" by (simp add: three_approved_def)
  from delinquency_rate_formula [OF d, of first_rows "[three_approved]"]
    delinquency_rate_formula [OF t, of first_rows "[]"] d t
  show ?thesis
    by (auto simp: ad at ft lt)
qed

subsection \<open>Score bands\<close>

text \<open>
  C3: the labels of the bands name intervals closed on the left (\<^verbatim>\<open>500-599\<close> begins at
  500), but \<^verbatim>\<open>pd.cut\<close> is called without \<^verbatim>\<open>right=False\<close> and closes them on the
  right. On the scores 499, 500, 649, 650 the code puts 500 with 499 under \<^verbatim>\<open><500\<close> and
  650 with 649 under \<^verbatim>\<open>600-649\<close>: two bands of two customers, and no row for the bands
  \<^verbatim>\<open>500-599\<close> and \<^verbatim>\<open>650-699\<close>, where the claim has four bands of one.
\<close>

theorem risk_by_score_boundaries:
  "risk_by_score boundary_scores = [(''<500'', 2, Fin 0), (''600-649'', 2, Fin 0)]"
  by (simp add: risk_by_score_def boundary_scores_def example_row_def approved_df_def
      score_band_def bins_def labels_def mean_def bools_def)

subsection \<open>What a run of the simulator computes\<close>

text \<open>
  The masked assignment rewrites the rows that the mask selects. The run leaves the input
  frame where it was and the rewritten copy behind it, and asks the cached function for
  the metrics of the input and then of the copy.
\<close>

lemma masked_assignment:
  "map (\<lambda>(r, m). if m then f r else r) (zip rs (map (Not \<circ> E) rs)) =
   map (\<lambda>r. if E r then r else f r) rs"
  by (induction rs) simp_all

lemma create_strategy_simulation_unfold:
  assumes "df < length s"
  shows "create_strategy_simulation smp p df s c =
     (if rows (s ! df) = [] then (Inr None, s, c)
      else
        let b = calculate_portfolio_metrics smp (s ! df) c in
        if ''income_band'' \<notin> set (columns (s ! df))
        then (Inl (KeyError ''income_band''), s @ [s ! df], snd b)
        else
          let t = calculate_portfolio_metrics smp (strategy_table p (s ! df)) (snd b) in
          (comparison (fst b) (fst t), s @ [strategy_table p (s ! df)], snd t))"
  using assms
  by (simp add: create_strategy_simulation_def empty_def df_copy_def eligible_mask_def
      loc_assign_decision_def strategy_table_def masked_assignment nth_append Let_def
      split: prod.splits)

lemma working_copy_unfold:
  "working_copy smp df p c =
     (if rows df = [] then None
      else if ''income_band'' \<notin> set (columns df) then Some df
      else Some (strategy_table p df))"
  by (simp add: working_copy_def create_strategy_simulation_unfold Let_def)

lemma simulate_unfold:
  "simulate smp df p c =
     (if rows df = [] then (Inr None, c)
      else
        let b = calculate_portfolio_metrics smp df c in
        if ''income_band'' \<notin> set (columns df)
        then (Inl (KeyError ''income_band''), snd b)
        else
          let t = calculate_portfolio_metrics smp (strategy_table p df) (snd b) in
          (comparison (fst b) (fst t), snd t))"
  by (simp add: simulate_def create_strategy_simulation_unfold Let_def)

lemma length_strategy_table [simp]: "length (rows (strategy_table p df)) = length (rows df)"
  by (simp add: strategy_table_def)

lemma columns_strategy_table [simp]: "columns (strategy_table p df) = columns df"
  by (simp add: strategy_table_def)

lemma rows_strategy_table_Nil [simp]: "rows (strategy_table p df) = [] \<longleftrightarrow> rows df = []"
  by (simp add: strategy_table_def)

lemma nth_strategy_table:
  "i < length (rows df) \<Longrightarrow>
     rows (strategy_table p df) ! i =
       (if application_score (rows df ! i) \<ge> of_int (min_score p)
           \<and> isin (income_band (rows df ! i)) (income_targets p)
        then rows df ! i else (rows df ! i)\<lparr>acceptance_decision := ''Declined''\<rparr>)"
  by (simp add: strategy_table_def)

lemma simulate_small:
  assumes "length (rows df) < 50000"
  shows "fst (simulate smp df p c) =
     (if rows df = [] then Inr None
      else if ''income_band'' \<notin> set (columns df) then Inl (KeyError ''income_band'')
      else comparison (calculate_portfolio_metrics_body df)
             (calculate_portfolio_metrics_body (strategy_table p df)))"
  using assms by (simp add: simulate_unfold Let_def calculate_portfolio_metrics_small)

lemma approved_strategy_table:
  "rows (approved_df (strategy_table p df)) =
     filter (\<lambda>r. acceptance_decision r = ''Approved''
                \<and> application_score r \<ge> of_int (min_score p)
                \<and> isin (income_band r) (income_targets p)) (rows df)"
proof -
  have "filter (\<lambda>r. acceptance_decision r = ''Approved'')
          (map (\<lambda>r. if E r then r else r\<lparr>acceptance_decision := ''Declined''\<rparr>) rs) =
        filter (\<lambda>r. acceptance_decision r = ''Approved'' \<and> E r) rs" for E and rs :: "customer list"
    by (induction rs) simp_all
  then show ?thesis
    by (simp add: approved_df_def strategy_table_def)
qed

lemma body_fields:
  "calculate_portfolio_metrics_body df = Some m \<Longrightarrow>
     approved_customers m = length (rows (approved_df df))
     \<and> portfolio_balance m = sum_int64 (map balance (rows (approved_df df)))"
  by (auto simp: calculate_portfolio_metrics_body_def Let_def split: if_splits)

lemma body_Some: "rows df \<noteq> [] \<Longrightarrow> \<exists>m. calculate_portfolio_metrics_body df = Some m"
  by (simp add: calculate_portfolio_metrics_body_def empty_def Let_def)

lemma simulate_output:
  assumes "rows df \<noteq> []" "''income_band'' \<in> set (columns df)" "length (rows df) < 50000"
  shows "\<exists>out. fst (simulate smp df p c) = Inr (Some out)
      \<and> calculate_portfolio_metrics_body df = Some (baseline_metrics out)
      \<and> calculate_portfolio_metrics_body (strategy_table p df) = Some (strategy_metrics out)
      \<and> balance_change out =
          fmul (true_divide
                  (of_int (wrap64 (portfolio_balance (strategy_metrics out)
                                    - portfolio_balance (baseline_metrics out))))
                  (of_int (portfolio_balance (baseline_metrics out)))) (Fin 100)"
proof -
  obtain bm where bm: "calculate_portfolio_metrics_body df = Some bm"
    using body_Some [OF assms(1)] by blast
  obtain sm where sm: "calculate_portfolio_metrics_body (strategy_table p df) = Some sm"
    using body_Some [of "strategy_table p df"] assms(1) by auto
  show ?thesis
    using assms by (simp add: simulate_small bm sm comparison_def)
qed

lemma comparison_approved:
  assumes "rows a \<noteq> []" "rows b \<noteq> []"
  shows "map_sum id (map_option (approved_customers \<circ> strategy_metrics))
       (comparison (calculate_portfolio_metrics_body a) (calculate_portfolio_metrics_body b))
     = Inr (Some (length (rows (approved_df b))))"
  using assms
  by (simp add: comparison_def calculate_portfolio_metrics_body_def empty_def Let_def)

text \<open>
  A second run with the same table and policy, started with the cache that the first left,
  returns what the first returned and leaves the cache as it is.
\<close>

lemma simulate_again:
  "simulate smp table p (snd (simulate smp table p c)) = simulate smp table p c"
proof -
  let ?b = "calculate_portfolio_metrics smp table c"
  let ?t = "calculate_portfolio_metrics smp (strategy_table p table) (snd ?b)"
  obtain e where e: "snd ?t = snd ?b @ e"
    using calculate_extends by blast
  have b1: "calculate_portfolio_metrics smp table (snd ?b) = (fst ?b, snd ?b)"
    using calculate_again [of smp table c "[]"] by simp
  have b2: "calculate_portfolio_metrics smp table (snd ?t) = (fst ?b, snd ?t)"
    using calculate_again [of smp table c e] by (simp add: e)
  have t2: "calculate_portfolio_metrics smp (strategy_table p table) (snd ?t) = (fst ?t, snd ?t)"
    using calculate_again [of smp "strategy_table p table" "snd ?b" "[]"] by simp
  show ?thesis
    by (simp add: simulate_unfold Let_def b1 b2 t2)
qed

lemma length_filter_mono:
  "(\<And>x. x \<in> set xs \<Longrightarrow> P x \<Longrightarrow> Q x) \<Longrightarrow> length (filter P xs) \<le> length (filter Q xs)"
  by (induction xs) auto


lemma length_filter_upt:
  "length (filter P [0..<n]) = card {i. i < n \<and> P i}"
proof -
  have "length (filter P [0..<n]) = card ({i. P i} \<inter> set [0..<n])"
    by (rule distinct_length_filter) simp
  also have "{i. P i} \<inter> set [0..<n] = {i. i < n \<and> P i}" by auto
  finally show ?thesis .
qed

lemma approved_map:
  "length (rows (approved_df (strategy_table p \<lparr>columns = cs, rows = map f [0..<n]\<rparr>))) =
     card {i. i < n \<and> acceptance_decision (f i) = ''Approved''
                \<and> application_score (f i) \<ge> of_int (min_score p)
                \<and> isin (income_band (f i)) (income_targets p)}"
  by (simp add: approved_strategy_table filter_map comp_def length_filter_upt)

subsection \<open>Which rows the policy declines\<close>

text \<open>
  C4, as stated, fails: an approved customer with a score above the minimum and a missing
  income band is not forced by the rule of the specification, but \<^verbatim>\<open>isin\<close> is false on
  the missing cell and the working copy has the customer Declined.
\<close>

theorem missing_income_band_counterexample:
  "\<not> spec_forced all_bands (hd (rows missing_band))
   \<and> acceptance_decision (hd (rows missing_band)) = ''Approved''
   \<and> map_option (\<lambda>w. map acceptance_decision (rows w))
        (working_copy first_rows missing_band all_bands []) = Some [''Declined'']"
  by (simp add: working_copy_unfold strategy_table_def missing_band_def all_bands_def
      example_row_def example_columns_def spec_forced_def isin_def)

text \<open>
  C4, amended: on a non-empty table that has the \<^verbatim>\<open>income_band\<close> column, the working
  copy is the input with the decision of a row set to Declined exactly when its score is
  below the minimum or its income band is not a target band, a missing income band being
  no target band; every other row and every other field is as in the input.
\<close>

theorem working_copy_decisions:
  assumes "rows df \<noteq> []" "''income_band'' \<in> set (columns df)"
  shows "working_copy smp df p c =
     Some (df\<lparr>rows :=
       map (\<lambda>r. if application_score r < of_int (min_score p)
                    \<or> (case income_band r of None \<Rightarrow> True
                        | Some b \<Rightarrow> b \<notin> set (income_targets p))
                 then r\<lparr>acceptance_decision := ''Declined''\<rparr> else r) (rows df)\<rparr>)"
proof -
  have "map (\<lambda>r. if of_int (min_score p) \<le> application_score r
                      \<and> isin (income_band r) (income_targets p)
                   then r else r\<lparr>acceptance_decision := ''Declined''\<rparr>) rs =
        map (\<lambda>r. if application_score r < of_int (min_score p)
                      \<or> (case income_band r of None \<Rightarrow> True
                          | Some b \<Rightarrow> b \<notin> set (income_targets p))
                   then r\<lparr>acceptance_decision := ''Declined''\<rparr> else r) rs"
    for rs :: "customer list"
    by (rule map_cong) (auto simp: isin_def split: option.splits)
  with assms show ?thesis
    by (simp add: working_copy_unfold strategy_table_def)
qed

theorem working_copy_decisions_witness:
  "rows three_approved \<noteq> [] \<and> ''income_band'' \<in> set (columns three_approved)
   \<and> map_option (\<lambda>w. map acceptance_decision (rows w))
        (working_copy first_rows three_approved all_bands [])
       = Some [''Declined'', ''Approved'', ''Approved'']"
proof -
  have r: "rows three_approved \<noteq> []" by (simp add: three_approved_def)
  have c: "''income_band'' \<in> set (columns three_approved)"
    by (simp add: three_approved_def example_columns_def)
  show ?thesis
    using r c working_copy_decisions [OF r c, of first_rows all_bands "[]"]
    by (simp add: three_approved_def all_bands_def example_row_def)
qed

subsection \<open>The input table is not written\<close>

text \<open>
  C5: whatever the policy and the cache, a run leaves every frame that existed before it
  as it was, the input frame among them: the assignment writes into the copy, which is a
  new frame.
\<close>

theorem simulation_leaves_frames:
  assumes "df < length s"
  shows "take (length s) (fst (snd (create_strategy_simulation smp p df s c))) = s
     \<and> fst (snd (create_strategy_simulation smp p df s c)) ! df = s ! df"
  using assms by (simp add: create_strategy_simulation_unfold nth_append Let_def)

theorem simulation_leaves_frames_witness:
  "(0::nat) < length [three_approved]
   \<and> fst (snd (create_strategy_simulation first_rows all_bands 0 [three_approved] [])) ! 0
       = three_approved
   \<and> length (fst (snd (create_strategy_simulation first_rows all_bands 0 [three_approved] [])))
       = 2"
proof -
  have l: "(0::nat) < length [three_approved]" by simp
  have "length (fst (snd (create_strategy_simulation first_rows all_bands 0 [three_approved] [])))
      = 2"
    by (simp add: create_strategy_simulation_unfold three_approved_def example_columns_def
        Let_def)
  with l simulation_leaves_frames [OF l, of first_rows all_bands "[]"] show ?thesis by simp
qed

subsection \<open>Raising the minimum score\<close>

text \<open>
  On a table of fewer than 50,000 rows the metrics are those of the frame that is passed,
  and a higher minimum score leaves at most as many approved customers, whatever the two
  caches hold.
\<close>

lemma min_score_monotone_small:
  assumes "rows df \<noteq> []" "''income_band'' \<in> set (columns df)" "length (rows df) < 50000"
    "min_score p \<le> m"
  shows "\<exists>lo hi. fst (simulate smp df p c) = Inr (Some lo)
     \<and> fst (simulate smp df (p\<lparr>min_score := m\<rparr>) c') = Inr (Some hi)
     \<and> approved_customers (strategy_metrics hi) \<le> approved_customers (strategy_metrics lo)"
proof -
  from simulate_output [OF assms(1,2,3), of smp p c] obtain lo where
    lo: "fst (simulate smp df p c) = Inr (Some lo)"
        "calculate_portfolio_metrics_body (strategy_table p df) = Some (strategy_metrics lo)"
    by blast
  from simulate_output [OF assms(1,2,3), of smp "p\<lparr>min_score := m\<rparr>" c'] obtain hi where
    hi: "fst (simulate smp df (p\<lparr>min_score := m\<rparr>) c') = Inr (Some hi)"
        "calculate_portfolio_metrics_body (strategy_table (p\<lparr>min_score := m\<rparr>) df)
           = Some (strategy_metrics hi)"
    by blast
  have "(of_int (min_score p) :: rat) \<le> of_int m" using assms(4) by simp
  then have "length (rows (approved_df (strategy_table (p\<lparr>min_score := m\<rparr>) df)))
      \<le> length (rows (approved_df (strategy_table p df)))"
    unfolding approved_strategy_table by (intro length_filter_mono) auto
  with body_fields [OF lo(2)] body_fields [OF hi(2)]
  have "approved_customers (strategy_metrics hi) \<le> approved_customers (strategy_metrics lo)"
    by simp
  with lo(1) hi(1) show ?thesis by blast
qed

text \<open>
  C6 fails on larger tables, where the key of the cache is made of 10,000 sampled rows.
  Take a table of \<open>n\<close> approved customers, \<open>n\<close> at least 50,000, laid out along the
  sample, and run the simulator three times in one process, starting with an empty cache:
  first with the minimum 500 and the high incomes alone, then with the minimum 500 and
  all income bands, then with the minimum 650 and all income bands. The working copy of
  the second run has \<open>n - 1\<close> approved customers, but it agrees with the working copy of
  the first run at the sampled positions: the second run is served the metrics of the
  first, 9,999 approved customers. The working copy of the third run differs at a sampled
  position, so its metrics are computed: \<open>n - 2\<close> approved customers. The higher minimum
  reports more approved customers than the lower.
\<close>

theorem stale_metrics_break_monotonicity:
  assumes "valid_sample smp n" "50000 \<le> n"
  shows "map_sum id (map_option (approved_customers \<circ> strategy_metrics))
       (fst (simulate smp (sampled_table smp n) all_bands
               (snd (simulate smp (sampled_table smp n) high_income []))))
     = Inr (Some 9999)
   \<and> map_sum id (map_option (approved_customers \<circ> strategy_metrics))
       (fst (simulate smp (sampled_table smp n) (all_bands\<lparr>min_score := 650\<rparr>)
               (snd (simulate smp (sampled_table smp n) all_bands
                  (snd (simulate smp (sampled_table smp n) high_income []))))))
     = Inr (Some (n - 2))"
proof -
  define S where "S = smp n"
  define s0 where "s0 = S ! 0"
  define s1 where "s1 = S ! 1"
  define f where "f = (\<lambda>i.
     if i = s0 then example_row i ''Approved'' 450 100 10 0 (Some ''High'')
     else if i = s1 then example_row i ''Approved'' 600 100 10 0 (Some ''High'')
     else if i \<in> set S then example_row i ''Approved'' 700 100 10 0 (Some ''High'')
     else example_row i ''Approved'' 700 100 10 0 (Some ''Low''))"
  define T where "T = sampled_table smp n"
  define hi where "hi = all_bands\<lparr>min_score := 650\<rparr>"
  let ?Tn = "strategy_table high_income T"
  let ?Tlo = "strategy_table all_bands T"
  let ?Thi = "strategy_table hi T"
  from assms(1) have S: "distinct S" "\<forall>i\<in>set S. i < n" "length S = 10000"
    by (simp_all add: valid_sample_def S_def list_all_iff)
  have s0: "s0 \<in> set S" and s1: "s1 \<in> set S" and ne: "s0 \<noteq> s1"
    using S by (simp_all add: s0_def s1_def nth_eq_iff_index_eq)
  have s0n: "s0 < n" and s1n: "s1 < n" using s0 s1 S(2) by auto
  have T: "T = \<lparr>columns = example_columns, rows = map f [0..<n]\<rparr>"
    by (simp add: T_def sampled_table_def f_def s0_def s1_def S_def)
  have len: "length (rows T) = n" and cols: "''income_band'' \<in> set (columns T)"
    and nonempty: "rows T \<noteq> []"
    using assms(2) by (auto simp: T example_columns_def)
  have nth: "rows T ! i = f i" if "i < n" for i
    using that by (simp add: T)
  have approved: "acceptance_decision (f i) = ''Approved''" for i
    by (simp add: f_def example_row_def)
  have en: "(of_int (min_score high_income) \<le> application_score (f i)
       \<and> isin (income_band (f i)) (income_targets high_income)) \<longleftrightarrow> i \<noteq> s0 \<and> i \<in> set S" for i
    using s0 s1 by (simp add: f_def example_row_def high_income_def isin_def)
  have elo: "(of_int (min_score all_bands) \<le> application_score (f i)
       \<and> isin (income_band (f i)) (income_targets all_bands)) \<longleftrightarrow> i \<noteq> s0" for i
    by (simp add: f_def example_row_def all_bands_def isin_def)
  have ehi: "(of_int (min_score hi) \<le> application_score (f i)
       \<and> isin (income_band (f i)) (income_targets hi)) \<longleftrightarrow> i \<noteq> s0 \<and> i \<noteq> s1" for i
    by (simp add: f_def example_row_def all_bands_def hi_def isin_def)
  have declined: "(f i)\<lparr>acceptance_decision := ''Declined''\<rparr> \<noteq> f i" for i
  proof
    assume "(f i)\<lparr>acceptance_decision := ''Declined''\<rparr> = f i"
    from arg_cong [OF this, of acceptance_decision] show False
      by (simp add: approved)
  qed
  have valid: "list_all (\<lambda>i. i < length (rows T)) (smp (length (rows T)))"
    using S(2) by (simp add: len list_all_iff S_def)
  have key: "frame_key smp (strategy_table p T) = frame_key smp (strategy_table q T) \<longleftrightarrow>
      (\<forall>i\<in>set S. rows (strategy_table p T) ! i = rows (strategy_table q T) ! i)" for p q
    using frame_key_large [of "strategy_table p T" "strategy_table q T" smp] assms(2) valid
    by (simp add: len S_def)
  have key0: "frame_key smp T = frame_key smp (strategy_table q T) \<longleftrightarrow>
      (\<forall>i\<in>set S. rows T ! i = rows (strategy_table q T) ! i)" for q
    using frame_key_large [of T "strategy_table q T" smp] assms(2) valid
    by (simp add: len S_def)
  have row: "rows (strategy_table p T) ! i =
      (if of_int (min_score p) \<le> application_score (f i)
          \<and> isin (income_band (f i)) (income_targets p)
       then f i else (f i)\<lparr>acceptance_decision := ''Declined''\<rparr>)" if "i < n" for p i
    using that by (simp add: nth_strategy_table len nth)
  have r0: "rows (strategy_table p T) ! s0 = (f s0)\<lparr>acceptance_decision := ''Declined''\<rparr>"
    if "p = high_income \<or> p = all_bands \<or> p = hi" for p
    using that row [OF s0n, of p] en [of s0] elo [of s0] ehi [of s0] by auto
  have k0: "frame_key smp T \<noteq> frame_key smp (strategy_table p T)"
    if p: "p = high_income \<or> p = all_bands \<or> p = hi" for p
  proof
    assume "frame_key smp T = frame_key smp (strategy_table p T)"
    with key0 s0 have "rows T ! s0 = rows (strategy_table p T) ! s0" by blast
    with r0 [OF p] nth [OF s0n] declined [of s0] show False by simp
  qed
  have k1: "frame_key smp T \<noteq> frame_key smp ?Tn"
    and k2: "frame_key smp T \<noteq> frame_key smp ?Tlo"
    and k4: "frame_key smp T \<noteq> frame_key smp ?Thi"
    by (simp_all add: k0)
  have k3: "frame_key smp ?Tn = frame_key smp ?Tlo"
    unfolding key
  proof
    fix i assume i: "i \<in> set S"
    with S(2) have "i < n" by blast
    with i show "rows ?Tn ! i = rows ?Tlo ! i"
      by (simp add: row en elo)
  qed
  have k5: "frame_key smp ?Tn \<noteq> frame_key smp ?Thi"
  proof
    assume "frame_key smp ?Tn = frame_key smp ?Thi"
    with key s1 have "rows ?Tn ! s1 = rows ?Thi ! s1" by blast
    moreover have "rows ?Tn ! s1 = f s1"
      using row [OF s1n, of high_income] en [of s1] s1 ne by simp
    moreover have "rows ?Thi ! s1 = (f s1)\<lparr>acceptance_decision := ''Declined''\<rparr>"
      using row [OF s1n, of hi] ehi [of s1] by simp
    ultimately show False using declined [of s1] by simp
  qed
  have c0: "snd (simulate smp T high_income []) = [T, ?Tn]"
    using nonempty cols k1
    by (simp add: simulate_unfold Let_def calculate_portfolio_metrics_def)
  have lo: "simulate smp T all_bands [T, ?Tn] =
      (comparison (calculate_portfolio_metrics_body T) (calculate_portfolio_metrics_body ?Tn),
       [T, ?Tn])"
    using nonempty cols k2 k3
    by (simp add: simulate_unfold Let_def calculate_portfolio_metrics_def)
  have hi: "fst (simulate smp T hi [T, ?Tn]) =
      comparison (calculate_portfolio_metrics_body T) (calculate_portfolio_metrics_body ?Thi)"
    using nonempty cols k4 k5
    by (simp add: simulate_unfold Let_def calculate_portfolio_metrics_def)
  have "{i. i < n \<and> i \<noteq> s0 \<and> i \<in> set S} = set S - {s0}"
    using S(2) by auto
  then have "card {i. i < n \<and> i \<noteq> s0 \<and> i \<in> set S} = 9999"
    using s0 S(1,3) by (simp add: distinct_card)
  then have cn: "length (rows (approved_df ?Tn)) = 9999"
    unfolding T approved_map by (simp add: approved en)
  have "{i. i < n \<and> i \<noteq> s0 \<and> i \<noteq> s1} = {..<n} - {s0, s1}"
    by auto
  then have "card {i. i < n \<and> i \<noteq> s0 \<and> i \<noteq> s1} = n - 2"
    using s0n s1n ne by (simp add: card_Diff_insert)
  then have ch: "length (rows (approved_df ?Thi)) = n - 2"
    unfolding T approved_map by (simp add: approved ehi)
  have "rows ?Tn \<noteq> []" "rows ?Thi \<noteq> []" using nonempty by simp_all
  with nonempty cn ch show ?thesis
    unfolding T_def [symmetric] hi_def [symmetric]
    by (simp add: c0 lo hi comparison_approved)
qed

theorem stale_metrics_break_monotonicity_witness:
  "valid_sample first_rows 50000 \<and> (50000::nat) \<le> 50000
   \<and> min_score all_bands < min_score (all_bands\<lparr>min_score := 650\<rparr>)
   \<and> map_sum id (map_option (approved_customers \<circ> strategy_metrics))
       (fst (simulate first_rows (sampled_table first_rows 50000) all_bands
               (snd (simulate first_rows (sampled_table first_rows 50000) high_income []))))
     = Inr (Some 9999)
   \<and> map_sum id (map_option (approved_customers \<circ> strategy_metrics))
       (fst (simulate first_rows (sampled_table first_rows 50000) (all_bands\<lparr>min_score := 650\<rparr>)
               (snd (simulate first_rows (sampled_table first_rows 50000) all_bands
                  (snd (simulate first_rows (sampled_table first_rows 50000) high_income []))))))
     = Inr (Some 49998)"
proof -
  have v: "valid_sample first_rows 50000"
    by (simp add: valid_sample_def first_rows_def list_all_iff)
  have n: "(50000::nat) \<le> 50000" by simp
  have m: "min_score all_bands < min_score (all_bands\<lparr>min_score := 650\<rparr>)"
    by (simp add: all_bands_def)
  from v n m stale_metrics_break_monotonicity [OF v n] show ?thesis by simp
qed

subsection \<open>The change of the portfolio balance\<close>

text \<open>
  C7, as stated, fails: the code divides by the baseline balance without a test. For one
  approved customer who owes nothing the baseline balance is 0 and the percentage is
  \<open>0 / 0\<close>, which is NaN (no exception, since the operands are numpy scalars).
\<close>

theorem zero_baseline_balance_counterexample:
  "map_sum id (map_option (portfolio_balance \<circ> baseline_metrics))
     (fst (simulate first_rows zero_balance all_bands [])) = Inr (Some 0)
   \<and> map_sum id (map_option balance_change)
       (fst (simulate first_rows zero_balance all_bands [])) = Inr (Some NaN)"
proof -
  have "length (rows zero_balance) < 50000" by (simp add: zero_balance_def)
  then show ?thesis
    by (simp add: simulate_small)
      (simp add: comparison_def calculate_portfolio_metrics_body_def empty_def
        strategy_table_def approved_df_def zero_balance_def all_bands_def example_row_def
        example_columns_def isin_def Let_def true_divide_def sum_int64_def wrap64_def)
qed

text \<open>
  C7, amended: on a non-empty table of fewer than 50,000 rows that has the
  \<^verbatim>\<open>income_band\<close> column, the run returns its comparison; the baseline balance is the
  int64 sum of the balances of the approved rows of the table, the simulated balance that
  of the approved rows of the working copy; and the balance change is
  \<open>(simulated - baseline) / baseline * 100\<close>, the difference taken in int64, when the
  baseline balance is not 0. When it is 0, the value is NaN if the simulated balance is 0
  too, and plus or minus infinity, by the sign of the simulated balance, otherwise.
\<close>

theorem balance_change_value:
  assumes "rows df \<noteq> []" "''income_band'' \<in> set (columns df)" "length (rows df) < 50000"
  shows "\<exists>w out. working_copy smp df p c = Some w
     \<and> fst (simulate smp df p c) = Inr (Some out)
     \<and> calculate_portfolio_metrics_body df = Some (baseline_metrics out)
     \<and> calculate_portfolio_metrics_body w = Some (strategy_metrics out)
     \<and> portfolio_balance (baseline_metrics out) = sum_int64 (map balance (rows (approved_df df)))
     \<and> portfolio_balance (strategy_metrics out) = sum_int64 (map balance (rows (approved_df w)))
     \<and> balance_change out =
        (let b = portfolio_balance (baseline_metrics out);
             s = portfolio_balance (strategy_metrics out)
         in if b \<noteq> 0 then Fin (of_int (wrap64 (s - b)) / of_int b * 100)
            else if s = 0 then NaN
            else if 0 < s then PosInf
            else NegInf)"
proof -
  let ?w = "strategy_table p df"
  from simulate_output [OF assms, of smp p c] obtain out where
    out: "fst (simulate smp df p c) = Inr (Some out)"
      "calculate_portfolio_metrics_body df = Some (baseline_metrics out)"
      "calculate_portfolio_metrics_body ?w = Some (strategy_metrics out)"
      "balance_change out =
          fmul (true_divide
                  (of_int (wrap64 (portfolio_balance (strategy_metrics out)
                                    - portfolio_balance (baseline_metrics out))))
                  (of_int (portfolio_balance (baseline_metrics out)))) (Fin 100)"
    by blast
  have w: "working_copy smp df p c = Some ?w"
    using assms by (simp add: working_copy_unfold)
  note b = body_fields [OF out(2)]
  note s = body_fields [OF out(3)]
  have "wrap64 (portfolio_balance (strategy_metrics out))
      = portfolio_balance (strategy_metrics out)"
    by (simp add: s sum_int64_def)
  with out(4) have "balance_change out =
        (let b = portfolio_balance (baseline_metrics out);
             s = portfolio_balance (strategy_metrics out)
         in if b \<noteq> 0 then Fin (of_int (wrap64 (s - b)) / of_int b * 100)
            else if s = 0 then NaN
            else if 0 < s then PosInf
            else NegInf)"
    by (simp add: true_divide_def Let_def)
  with w out(1,2,3) b s show ?thesis by blast
qed

text \<open>
  Under the minimum 500 the balance of the three approved customers drops from 600 to 500.
\<close>

lemma balance_example:
  "map_sum id (map_option (\<lambda>out. (portfolio_balance (baseline_metrics out),
       portfolio_balance (strategy_metrics out), balance_change out)))
     (fst (simulate first_rows three_approved all_bands []))
   = Inr (Some (600, 500, Fin (- (50 / 3))))"
proof -
  have "length (rows three_approved) < 50000" by (simp add: three_approved_def)
  then show ?thesis
    by (simp add: simulate_small)
      (simp add: comparison_def calculate_portfolio_metrics_body_def empty_def
        strategy_table_def approved_df_def three_approved_def all_bands_def example_row_def
        example_columns_def isin_def Let_def true_divide_def sum_int64_def wrap64_def)
qed

theorem balance_change_value_witness:
  "rows three_approved \<noteq> [] \<and> ''income_band'' \<in> set (columns three_approved)
   \<and> length (rows three_approved) < 50000
   \<and> map_sum id (map_option (\<lambda>out. (portfolio_balance (baseline_metrics out),
         portfolio_balance (strategy_metrics out), balance_change out)))
       (fst (simulate first_rows three_approved all_bands []))
     = Inr (Some (600, 500, Fin (- (50 / 3))))"
proof -
  have r: "rows three_approved \<noteq> []" by (simp add: three_approved_def)
  have c: "''income_band'' \<in> set (columns three_approved)"
    by (simp add: three_approved_def example_columns_def)
  have l: "length (rows three_approved) < 50000" by (simp add: three_approved_def)
  from balance_change_value [OF r c l, of first_rows all_bands "[]"] obtain out where
    "fst (simulate first_rows three_approved all_bands []) = Inr (Some out)" by blast
  with r c l balance_example show ?thesis by simp
qed

subsection \<open>The limit multiplier\<close>

text \<open>
  C9: two policies that agree on the minimum score and on the target income bands, and so
  differ at most in \<^verbatim>\<open>limit_multiplier\<close>, give the same run from the same store and
  cache: the same result (baseline metrics, simulated metrics, deltas, or the same error),
  the same store and the same cache. Run one after the other on a table, the second run
  returns what the first returned.
\<close>

theorem limit_multiplier_noninterference:
  fixes p q :: policy
  assumes "min_score p = min_score q" "income_targets p = income_targets q"
  shows "create_strategy_simulation smp p df s c = create_strategy_simulation smp q df s c
     \<and> simulate smp table p c = simulate smp table q c
     \<and> simulate smp table q (snd (simulate smp table p c)) = simulate smp table p c"
proof -
  have "eligible_mask p = eligible_mask q"
    unfolding eligible_mask_def assms ..
  then have "create_strategy_simulation smp p = create_strategy_simulation smp q"
    unfolding create_strategy_simulation_def by (intro ext) simp
  then have "simulate smp table p = simulate smp table q"
    by (intro ext) (simp add: simulate_def)
  with \<open>create_strategy_simulation smp p = create_strategy_simulation smp q\<close>
  show ?thesis
    using simulate_again [of smp table p c] by simp
qed

theorem limit_multiplier_noninterference_witness:
  "min_score all_bands = min_score (all_bands\<lparr>limit_multiplier := 2\<rparr>)
   \<and> income_targets all_bands = income_targets (all_bands\<lparr>limit_multiplier := 2\<rparr>)
   \<and> limit_multiplier all_bands \<noteq> limit_multiplier (all_bands\<lparr>limit_multiplier := 2\<rparr>)
   \<and> simulate first_rows three_approved all_bands []
       = simulate first_rows three_approved (all_bands\<lparr>limit_multiplier := 2\<rparr>) []
   \<and> simulate first_rows three_approved (all_bands\<lparr>limit_multiplier := 2\<rparr>)
         (snd (simulate first_rows three_approved all_bands []))
       = simulate first_rows three_approved all_bands []"
proof -
  have m: "min_score all_bands = min_score (all_bands\<lparr>limit_multiplier := 2\<rparr>)" by simp
  have t: "income_targets all_bands = income_targets (all_bands\<lparr>limit_multiplier := 2\<rparr>)" by simp
  have l: "limit_multiplier all_bands \<noteq> limit_multiplier (all_bands\<lparr>limit_multiplier := 2\<rparr>)"
    by (simp add: all_bands_def)
  from m t l limit_multiplier_noninterference
    [OF m t, of first_rows 0 "[three_approved]" "[]" three_approved]
  show ?thesis by blast
qed

subsection \<open>The policy only demotes\<close>





subsection \<open>The high-risk filter\<close>

text \<open>
  The descending sort keeps the rows and puts them in descending order of the key.
\<close>

lemma sort_values_desc_mset: "mset (sort_values_desc k xs) = mset xs"
  by (simp add: sort_values_desc_def)

lemma sort_values_desc_sorted: "sorted_wrt (\<lambda>a b. k b \<le> k a) (sort_values_desc k xs)"
proof -
  have "sorted (map k (sort_key k (rev xs)))" by (rule sorted_sort_key)
  then have "sorted_wrt (\<lambda>a b. k a \<le> k b) (sort_key k (rev xs))"
    by (simp add: sorted_wrt_map)
  then show ?thesis
    by (simp add: sort_values_desc_def sorted_wrt_rev)
qed

text \<open>
  C8: the filter returns exactly the approved rows with a balance of at least
  \<open>min_balance\<close>, a score of at most \<open>max_score\<close> and a utilisation of at least
  \<open>min_utilization\<close> (as a multiset: each such row as often as the table has it). With a
  \<^verbatim>\<open>risk_score\<close> column they are in descending order of the risk score, a missing
  score being below every score and so last; without it they are in descending
  lexicographic order of delinquency status and utilisation.
\<close>

theorem high_risk_df_sorted:
  "columns (high_risk_df df min_balance max_score min_utilization) = columns df
   \<and> mset (rows (high_risk_df df min_balance max_score min_utilization)) =
       filter_mset (\<lambda>r. acceptance_decision r = ''Approved''
                       \<and> min_balance \<le> balance r
                       \<and> application_score r \<le> of_int max_score
                       \<and> of_int min_utilization \<le> utilization_rate r) (mset (rows df))
   \<and> (if ''risk_score'' \<in> set (columns df)
      then sorted_wrt (\<lambda>a b. risk_score b \<le> risk_score a)
             (rows (high_risk_df df min_balance max_score min_utilization))
      else sorted_wrt (\<lambda>a b. delinquency_status b < delinquency_status a
                            \<or> (delinquency_status b = delinquency_status a
                                \<and> utilization_rate b \<le> utilization_rate a))
             (rows (high_risk_df df min_balance max_score min_utilization)))"
proof -
  have lex: "sorted_wrt (\<lambda>a b. delinquency_status b < delinquency_status a
                            \<or> (delinquency_status b = delinquency_status a
                                \<and> utilization_rate b \<le> utilization_rate a))
       (sort_values_desc (\<lambda>r. (delinquency_status r, utilization_rate r)) xs)" for xs
    using sort_values_desc_sorted [of "\<lambda>r. (delinquency_status r, utilization_rate r)" xs]
    by (rule sorted_wrt_mono_rel [rotated]) (auto simp: less_eq_prod_def)
  show ?thesis
    by (simp add: high_risk_df_def approved_df_def Let_def sort_values_desc_mset
        sort_values_desc_sorted lex conj_commute conj_left_commute)
qed

theorem high_risk_df_sorted_witness:
  "''risk_score'' \<notin> set (columns four_risky)
   \<and> map customer_id (rows (high_risk_df four_risky 1000 650 50)) = [2, 4, 3, 1]
   \<and> sorted_wrt (\<lambda>a b. delinquency_status b < delinquency_status a
                            \<or> (delinquency_status b = delinquency_status a
                                \<and> utilization_rate b \<le> utilization_rate a))
             (rows (high_risk_df four_risky 1000 650 50))"
proof -
  have c: "''risk_score'' \<notin> set (columns four_risky)"
    by (simp add: four_risky_def example_columns_def)
  have o: "map customer_id (rows (high_risk_df four_risky 1000 650 50)) = [2, 4, 3, 1]"
    by (simp add: high_risk_df_def approved_df_def Let_def sort_values_desc_def four_risky_def
        example_row_def example_columns_def less_eq_prod_def)
  from c o high_risk_df_sorted [of four_risky 1000 650 50] show ?thesis by simp
qed

end
